theory Spec2Isabelle
  imports Complex_Main "HOL-Library.Word"
begin

section \<open>Distance estimation pipeline of the radar ranging example\<close>

text \<open>
  The development follows \<^verbatim>\<open>example_basic_service_lookup_table.c\<close> and
  \<^verbatim>\<open>example_lookup_table.h\<close>. Machine integers are words or integers with the
  conversion written out. A C \<^verbatim>\<open>float\<close> is read as the real number it denotes:
  rounding is not modelled, and a float division whose divisor is zero (which C answers
  with an infinity or a NaN) is a separate outcome of the model, never a number.
\<close>

subsection \<open>Temperature-dependent normalisation divisor\<close>

text \<open>
  The first statements of \<^verbatim>\<open>run_simple_threshold_algo\<close> and of
  \<^verbatim>\<open>run_delay_n_compare_algo\<close>, the same in both:
  \<^verbatim>\<open>uint16_t divisor = (-15 * temp) + 1600;
  if (divisor < 0) { divisor = 1; } else { divisor = round(divisor); }\<close>
  The product and the sum are computed in \<^verbatim>\<open>int\<close> (the 16-bit operand is
  promoted, so nothing overflows), the store into \<^verbatim>\<open>uint16_t\<close> reduces modulo
  \<open>2 ^ 16\<close>, and the comparison with 0 reads the stored unsigned value.
\<close>

definition compute_divisor :: "16 word \<Rightarrow> 16 word" where
  "compute_divisor temp =
     (let divisor = (word_of_int (- 15 * uint temp + 1600) :: 16 word)
      in if uint divisor < 0 then 1
         else word_of_int (round (real_of_int (uint divisor))))"

subsection \<open>Data of the estimator\<close>

text \<open>
  \<^verbatim>\<open>acc_int16_complex_t\<close>: one complex sample, two signed 16-bit integers
  (\<^verbatim>\<open>real\<close> and \<^verbatim>\<open>imag\<close> in the C struct).
\<close>

record acc_int16_complex_t =
  real_part :: "16 word"
  imag_part :: "16 word"

text \<open>
  \<^verbatim>\<open>PrintDataConfig\<close>: its declaration (\<^verbatim>\<open>print_data_config.h\<close>) is not among the
  sources, so the record lists the fields the code reads, integers for the fields the
  code uses as integers (their widths are not known, so they are not bounded here) and
  reals for the others. \<^verbatim>\<open>x_intercepts\<close> is read at the indices 0 to 3.
\<close>

record PrintDataConfig =
  rf_factor :: real
  num_points :: int
  sweeps_per_frame :: int
  step :: int
  start_point :: int
  x_intercepts :: "nat \<Rightarrow> real"
  line1_slope :: real
  y_inter_line1 :: real
  line2_slope :: real
  y_inter_line2 :: real
  line3_slope :: real
  y_inter_line3 :: real
  algo :: int
  avg_type :: int

text \<open>
  \<^verbatim>\<open>ProcessedData\<close> (\<^verbatim>\<open>processed_data.h\<close>, not among the sources): the fields the
  estimator writes, each holding the unsigned value the code casts to before the store.
\<close>

record ProcessedData =
  pd_divisor :: "16 word"
  pd_first_threshold_x :: "32 word"
  pd_first_threshold_y :: "32 word"
  pd_max_amplitude :: "32 word"
  pd_temp :: "16 word"
  pd_threshold_crossed :: "32 word"
  pd_selected_distance :: "32 word"

text \<open>
  What the C program does outside the values of the model: reading past the frame or
  past the 400-entry local arrays, signed overflow, integer division by zero, a float
  division by zero (the result is an infinity or a NaN) and a float-to-unsigned cast of
  a value outside the range of \<^verbatim>\<open>uint32_t\<close>.
\<close>

datatype fault =
    FrameOverrun
  | SignedOverflow
  | DivisionByZero
  | ArrayOverrun
  | RfFactorZero
  | SlopeDenominatorZero
  | CastOutOfRange

subsection \<open>The coarse position lookup table\<close>

text \<open>
  \<^verbatim>\<open>positions[LOOKUP_TABLE_SIZE]\<close> and \<^verbatim>\<open>distances[LOOKUP_TABLE_SIZE]\<close> are two arrays
  of one length; a table is the list of their rows.
\<close>

type_synonym lookup_table = "(real \<times> real) list"

definition LOOKUP_TABLE_SIZE :: "lookup_table \<Rightarrow> nat" where
  "LOOKUP_TABLE_SIZE t = length t"

definition positions :: "lookup_table \<Rightarrow> nat \<Rightarrow> real" where
  "positions t i = fst (t ! i)"

definition distances :: "lookup_table \<Rightarrow> nat \<Rightarrow> real" where
  "distances t i = snd (t ! i)"

text \<open>The table of \<^verbatim>\<open>example_lookup_table.h\<close>.\<close>

definition example_lookup_table :: lookup_table where
  "example_lookup_table =
     [(10.50, 10.45), (20.75, 20.78), (30.25, 30.22), (40.00, 40.03), (50.15, 50.12)]"

text \<open>The first loop of \<^verbatim>\<open>getNearestDistance\<close>: the first exact match from index \<open>i\<close> on.\<close>

function exact_match_from :: "lookup_table \<Rightarrow> real \<Rightarrow> nat \<Rightarrow> real option" where
  "exact_match_from t position i =
     (if i < LOOKUP_TABLE_SIZE t
      then (if positions t i = position then Some (distances t i)
            else exact_match_from t position (Suc i))
      else None)"
  by pat_completeness auto
termination
  by (relation "measure (\<lambda>(t, position, i). LOOKUP_TABLE_SIZE t - i)") auto

text \<open>The last loop: the first pair of neighbours that strictly bracket the position.\<close>

function interpolate_from :: "lookup_table \<Rightarrow> real \<Rightarrow> nat \<Rightarrow> real option" where
  "interpolate_from t position i =
     (if Suc i < LOOKUP_TABLE_SIZE t
      then (if position > positions t i \<and> position < positions t (Suc i)
            then (let x1 = positions t i; y1 = distances t i;
                      x2 = positions t (Suc i); y2 = distances t (Suc i)
                  in Some (y1 + (y2 - y1) * (position - x1) / (x2 - x1)))
            else interpolate_from t position (Suc i))
      else None)"
  by pat_completeness auto
termination
  by (relation "measure (\<lambda>(t, position, i). LOOKUP_TABLE_SIZE t - i)") auto

declare exact_match_from.simps [simp del] interpolate_from.simps [simp del]

definition getNearestDistance :: "lookup_table \<Rightarrow> real \<Rightarrow> real" where
  "getNearestDistance t position =
     (if LOOKUP_TABLE_SIZE t = 0 then - 1
      else case exact_match_from t position 0 of
             Some d \<Rightarrow> d
           | None \<Rightarrow>
               if position \<le> positions t 0 then distances t 0
               else if position \<ge> positions t (LOOKUP_TABLE_SIZE t - 1)
                    then distances t (LOOKUP_TABLE_SIZE t - 1)
               else (case interpolate_from t position 0 of
                       Some interpolated \<Rightarrow> interpolated
                     | None \<Rightarrow> - 1))"

subsection \<open>Distance correction\<close>

text \<open>
  Which tables are compiled in is decided by the preprocessor: \<^verbatim>\<open>LOOKUP_TABLE_SIZE\<close>
  is defined when a position table is included, \<^verbatim>\<open>ERROR_TABLE_SIZE\<close> when an error
  correction table is. \<^verbatim>\<open>error_correction_table.h\<close> is not among the sources, so
  its query \<^verbatim>\<open>applyCorrectedDistance\<close> is a parameter: \<open>error_table\<close> is \<open>Some f\<close>
  when the header is present, with \<open>f\<close> its query.
\<close>

record correction_tables =
  error_table :: "(real \<Rightarrow> real) option"
  position_table :: "lookup_table option"

definition lookup_tables_available :: "correction_tables \<Rightarrow> bool" where
  "lookup_tables_available tabs =
     (case position_table tabs of
        Some t \<Rightarrow> LOOKUP_TABLE_SIZE t > 0
      | None \<Rightarrow> False)"

definition apply_distance_correction :: "correction_tables \<Rightarrow> real \<Rightarrow> real" where
  "apply_distance_correction tabs raw_distance_mm =
     (if \<not> lookup_tables_available tabs then raw_distance_mm
      else case error_table tabs of
        Some applyCorrectedDistance \<Rightarrow>
          (let corrected_distance = applyCorrectedDistance raw_distance_mm
           in case position_table tabs of
                Some t \<Rightarrow>
                  (let lookup_distance = getNearestDistance t corrected_distance
                   in if lookup_distance > 0
                      then (let difference =
                                  (if lookup_distance > corrected_distance
                                   then lookup_distance - corrected_distance
                                   else corrected_distance - lookup_distance)
                            in if difference > 2 then lookup_distance
                               else corrected_distance)
                      else corrected_distance)
              | None \<Rightarrow> corrected_distance)
      | None \<Rightarrow>
          (case position_table tabs of
             Some t \<Rightarrow>
               (let lookup_distance = getNearestDistance t raw_distance_mm
                in if lookup_distance > 0 then lookup_distance else raw_distance_mm)
           | None \<Rightarrow> raw_distance_mm))"

subsection \<open>The threshold-crossing estimator\<close>

text \<open>
  \<^verbatim>\<open>uint32_t amplitude = (re * re + im * im) / divisor;\<close>
  The operands are promoted to \<^verbatim>\<open>int\<close>: the sum overflows for the one sample
  \<open>(-32768, -32768)\<close>, and the division traps on a zero divisor. Dividend and divisor
  are not negative, so C's truncating division is \<open>div\<close>.
\<close>

definition amplitude_of :: "acc_int16_complex_t \<Rightarrow> 16 word \<Rightarrow> fault + 32 word" where
  "amplitude_of sample divisor =
     (let power = sint (real_part sample) * sint (real_part sample)
                + sint (imag_part sample) * sint (imag_part sample)
      in if power > 2147483647 then Inl SignedOverflow
         else if divisor = 0 then Inl DivisionByZero
         else Inr (word_of_int (power div uint divisor)))"

text \<open>
  \<^verbatim>\<open>rf_factor_step = 0.0025 / rf_factor\<close> and
  \<^verbatim>\<open>distance = (sweep_index * rf_factor_step * step) + (start_point * rf_factor_step)\<close>.
  The division is done before the frame length is checked, but its value is first used
  here; with \<open>rf_factor = 0\<close> no distance is a finite number.
\<close>

definition distance_at :: "PrintDataConfig \<Rightarrow> nat \<Rightarrow> fault + real" where
  "distance_at cfg sweep_index =
     (if rf_factor cfg = 0 then Inl RfFactorZero
      else (let rf_factor_step = 0.0025 / rf_factor cfg
            in Inr ((real sweep_index * rf_factor_step * real_of_int (step cfg))
                    + (real_of_int (start_point cfg) * rf_factor_step))))"

definition threshold_at :: "PrintDataConfig \<Rightarrow> real \<Rightarrow> real" where
  "threshold_at cfg x =
     (if x \<ge> x_intercepts cfg 0 \<and> x \<le> x_intercepts cfg 1
      then (x * line1_slope cfg) + y_inter_line1 cfg
      else if x > x_intercepts cfg 1 \<and> x \<le> x_intercepts cfg 2
      then (x * line2_slope cfg) + y_inter_line2 cfg
      else if x > x_intercepts cfg 2 \<and> x \<le> x_intercepts cfg 3
      then (x * line3_slope cfg) + y_inter_line3 cfg
      else 0)"

text \<open>The locals of \<^verbatim>\<open>run_simple_threshold_algo\<close> that live across the loop.\<close>

record scan_locals =
  amplitudes :: "nat \<Rightarrow> 32 word"
  sweep_distances :: "nat \<Rightarrow> real"
  first_threshold_index :: int
  first_threshold_x :: real
  first_threshold_y :: real
  first_below_threshold_x :: real
  first_below_threshold_y :: real
  threshold_crossed :: real
  max_amplitude :: real

definition initial_locals :: scan_locals where
  "initial_locals =
     \<lparr>amplitudes = (\<lambda>_. 0), sweep_distances = (\<lambda>_. 0), first_threshold_index = 0,
      first_threshold_x = 0, first_threshold_y = 0, first_below_threshold_x = 0,
      first_below_threshold_y = 0, threshold_crossed = 0, max_amplitude = 0\<rparr>"

text \<open>
  The \<^verbatim>\<open>for\<close> loop over the range points. The local arrays have 400 entries, so the
  index never reaches the wrap-around of \<^verbatim>\<open>uint16_t\<close>. The loop is left at the first
  crossing (\<^verbatim>\<open>break\<close>).
\<close>

function scan ::
  "PrintDataConfig \<Rightarrow> acc_int16_complex_t list \<Rightarrow> 16 word \<Rightarrow> nat \<Rightarrow> scan_locals
     \<Rightarrow> fault + scan_locals" where
  "scan cfg data divisor sweep_index st =
     (if int sweep_index < num_points cfg
      then (if length data \<le> sweep_index then Inl FrameOverrun
            else case amplitude_of (data ! sweep_index) divisor of
              Inl e \<Rightarrow> Inl e
            | Inr amplitude \<Rightarrow>
                if 400 \<le> sweep_index then Inl ArrayOverrun
                else (case distance_at cfg sweep_index of
                  Inl e \<Rightarrow> Inl e
                | Inr distance \<Rightarrow>
                    (let st1 = st\<lparr>amplitudes := fun_upd (amplitudes st) sweep_index amplitude,
                                   max_amplitude :=
                                     (if real (unat amplitude) > max_amplitude st
                                      then real (unat amplitude) else max_amplitude st),
                                   sweep_distances :=
                                     fun_upd (sweep_distances st) sweep_index distance\<rparr>;
                         threshold = threshold_at cfg distance
                     in if first_threshold_x st1 = 0
                           \<and> (real (unat amplitude) - threshold) > 0
                        then Inr (st1\<lparr>first_threshold_x := distance,
                                      first_threshold_y := real (unat amplitude),
                                      first_threshold_index := int sweep_index,
                                      threshold_crossed := threshold,
                                      first_below_threshold_x :=
                                        (if sweep_index > 0
                                         then sweep_distances st1 (sweep_index - 1)
                                         else first_below_threshold_x st1),
                                      first_below_threshold_y :=
                                        (if sweep_index > 0
                                         then real (unat (amplitudes st1 (sweep_index - 1)))
                                         else first_below_threshold_y st1)\<rparr>)
                        else scan cfg data divisor (Suc sweep_index) st1)))
      else Inr st)"
  by pat_completeness auto
termination
  by (relation "measure (\<lambda>(cfg, data, divisor, sweep_index, st).
                            nat (num_points cfg) - sweep_index)") auto

declare scan.simps [simp del]

text \<open>
  A cast \<^verbatim>\<open>(uint32_t)x\<close> of a float: the value is truncated towards zero, and the
  cast is undefined when the truncated value is not a \<^verbatim>\<open>uint32_t\<close>.
\<close>

definition float_to_uint32 :: "real \<Rightarrow> fault + 32 word" where
  "float_to_uint32 x =
     (if - 1 < x \<and> x < 2 ^ 32
      then Inr (word_of_int (if x < 0 then 0 else \<lfloor>x\<rfloor>))
      else Inl CastOutOfRange)"

text \<open>
  \<^verbatim>\<open>run_simple_threshold_algo\<close> returns the distance and writes through
  \<^verbatim>\<open>proc_data\<close>; the model returns both. The source computes
  \<^verbatim>\<open>(threshold_crossed - first_below_threshold_y) / (first_threshold_y - first_below_threshold_y)\<close>
  with no test of the denominator; the model names the case of a zero denominator, where
  the quotient is no number, \<open>SlopeDenominatorZero\<close>.
\<close>

definition run_simple_threshold_algo ::
  "correction_tables \<Rightarrow> acc_int16_complex_t list \<Rightarrow> 16 word \<Rightarrow> PrintDataConfig
     \<Rightarrow> 16 word \<Rightarrow> ProcessedData \<Rightarrow> fault + (32 word \<times> ProcessedData)" where
  "run_simple_threshold_algo tabs data data_length cfg temp proc_data =
     (let divisor = compute_divisor temp
      in if uint data_length = num_points cfg * sweeps_per_frame cfg
         then (case scan cfg data divisor 0 initial_locals of
                 Inl e \<Rightarrow> Inl e
               | Inr st \<Rightarrow>
                   if first_threshold_index st \<noteq> 0
                   then (if first_threshold_y st - first_below_threshold_y st = 0
                         then Inl SlopeDenominatorZero
                         else
                           (let selected =
                                  first_below_threshold_x st
                                  + ((threshold_crossed st - first_below_threshold_y st)
                                       / (first_threshold_y st - first_below_threshold_y st))
                                    * (first_threshold_x st - first_below_threshold_x st);
                                corrected_distance_mm =
                                  apply_distance_correction tabs (selected * 1000);
                                selected = corrected_distance_mm / 1000
                            in case float_to_uint32 (selected * 10000) of
                                 Inl e \<Rightarrow> Inl e
                               | Inr distance \<Rightarrow>
                                   (case float_to_uint32 (first_threshold_x st * 10000) of
                                      Inl e \<Rightarrow> Inl e
                                    | Inr x \<Rightarrow>
                                        (case float_to_uint32 (first_threshold_y st) of
                                           Inl e \<Rightarrow> Inl e
                                         | Inr y \<Rightarrow>
                                             (case float_to_uint32 (max_amplitude st) of
                                                Inl e \<Rightarrow> Inl e
                                              | Inr m \<Rightarrow>
                                                  Inr (distance,
                                                       proc_data\<lparr>pd_selected_distance := distance,
                                                                 pd_divisor := divisor,
                                                                 pd_first_threshold_x := x,
                                                                 pd_first_threshold_y := y,
                                                                 pd_max_amplitude := m\<rparr>))))))
                   else Inr (0, proc_data))
         else Inr (0, proc_data))"

subsection \<open>The smoothing buffer\<close>

text \<open>
  Modelled from the spec: \<^verbatim>\<open>fifo_buff.h\<close> (the type \<^verbatim>\<open>FIFOBuffer\<close>) is not among the
  sources. The spec describes a fixed-capacity ordered sequence of past distances, the
  oldest first.
\<close>

record 'a FIFOBuffer =
  capacity :: nat
  held :: "'a list"


text \<open>
  Modelled from the spec: \<^verbatim>\<open>isFull\<close> of \<^verbatim>\<open>fifo_buff.h\<close> is missing; the buffer is
  full when it is at capacity.
\<close>

definition isFull :: "'a FIFOBuffer \<Rightarrow> bool" where
  "isFull b \<longleftrightarrow> length (held b) = capacity b"

text \<open>
  Modelled from the spec: \<^verbatim>\<open>dequeue\<close> of \<^verbatim>\<open>fifo_buff.h\<close> is missing; it evicts the
  oldest entry, and the buffer never underflows.
\<close>

definition dequeue :: "'a FIFOBuffer \<Rightarrow> 'a FIFOBuffer" where
  "dequeue b = b\<lparr>held := tl (held b)\<rparr>"

text \<open>
  Modelled from the spec: \<^verbatim>\<open>enqueue\<close> of \<^verbatim>\<open>fifo_buff.h\<close> is missing; it inserts
  the new value as the newest entry.
\<close>

definition enqueue :: "'a FIFOBuffer \<Rightarrow> 'a \<Rightarrow> 'a FIFOBuffer" where
  "enqueue b v = b\<lparr>held := held b @ [v]\<rparr>"

text \<open>
  The push of \<^verbatim>\<open>acc_service\<close>:
  \<^verbatim>\<open>if (isFull(&lastHeldValues)) { dequeue(&lastHeldValues); }
  enqueue(&lastHeldValues, distance);\<close>
\<close>

definition push :: "'a FIFOBuffer \<Rightarrow> 'a \<Rightarrow> 'a FIFOBuffer" where
  "push b v = enqueue (if isFull b then dequeue b else b) v"


subsection \<open>One frame cycle of the measurement loop\<close>

text \<open>
  The locals of \<^verbatim>\<open>acc_service\<close> that live across the iterations of its loop:
  \<^verbatim>\<open>distance\<close>, \<^verbatim>\<open>proc_data\<close> and \<^verbatim>\<open>lastHeldValues\<close>.
\<close>

record service_locals =
  svc_distance :: real
  svc_proc_data :: ProcessedData
  lastHeldValues :: "real FIFOBuffer"

text \<open>
  The branch of the loop taken when no recalibration is needed, up to the update of the
  buffer. The estimator runs when \<^verbatim>\<open>algo == 1\<close> and its \<^verbatim>\<open>uint32_t\<close> result is
  stored in the float \<^verbatim>\<open>distance\<close>; otherwise \<^verbatim>\<open>distance\<close> keeps its value. What
  follows in the loop (the aggregate and its transmission) reads these locals and does
  not change them.
\<close>

definition frame_cycle ::
  "correction_tables \<Rightarrow> PrintDataConfig \<Rightarrow> acc_int16_complex_t list \<Rightarrow> 16 word
     \<Rightarrow> 16 word \<Rightarrow> service_locals \<Rightarrow> fault + service_locals" where
  "frame_cycle tabs cfg frame frame_data_length temperature loc =
     (case (if algo cfg = 1
            then (case run_simple_threshold_algo tabs frame frame_data_length cfg
                         temperature (svc_proc_data loc) of
                    Inl e \<Rightarrow> Inl e
                  | Inr (r, pd) \<Rightarrow> Inr (real (unat r), pd))
            else Inr (svc_distance loc, svc_proc_data loc)) of
        Inl e \<Rightarrow> Inl e
      | Inr (distance, pd) \<Rightarrow>
          Inr \<lparr>svc_distance = distance, svc_proc_data = pd,
               lastHeldValues = push (lastHeldValues loc) distance\<rparr>)"

subsection \<open>Calibration and prepare\<close>

text \<open>
  The sensor library and the board support are outside the sources. Their calls are
  recorded as events, and their answers are given by the environment: the answer of the
  \<open>n\<close>-th call of \<^verbatim>\<open>acc_sensor_calibrate\<close> (its status and the value it leaves in
  \<^verbatim>\<open>cal_complete\<close>), of the \<open>n\<close>-th wait for the sensor interrupt, and of
  \<^verbatim>\<open>acc_sensor_prepare\<close>.
\<close>

datatype hal_event =
    SensorDisable
  | SensorEnable
  | SensorCalibrate
  | WaitForInterrupt
  | SensorPrepare

record sensor_env =
  calibrate_answer :: "nat \<Rightarrow> bool \<times> bool"
  wait_answer :: "nat \<Rightarrow> bool"
  prepare_answer :: bool

record cal_state =
  events :: "hal_event list"
  calibrate_calls :: nat
  wait_calls :: nat
  cal_complete :: bool

definition initial_cal_state :: cal_state where
  "initial_cal_state =
     \<lparr>events = [], calibrate_calls = 0, wait_calls = 0, cal_complete = False\<rparr>"

text \<open>
  The inner \<^verbatim>\<open>do ... while (status && !cal_complete)\<close>. Nothing bounds it: a sensor
  that never completes and never fails keeps it running, and then there is no result.
\<close>

partial_function (option) calibrate_loop ::
  "sensor_env \<Rightarrow> cal_state \<Rightarrow> (bool \<times> cal_state) option" where
  "calibrate_loop env s =
     (let answer = calibrate_answer env (calibrate_calls s);
          s1 = s\<lparr>events := events s @ [SensorCalibrate],
                 calibrate_calls := Suc (calibrate_calls s),
                 cal_complete := snd answer\<rparr>
      in if fst answer \<and> \<not> cal_complete s1
         then (let status = wait_answer env (wait_calls s1);
                   s2 = s1\<lparr>events := events s1 @ [WaitForInterrupt],
                           wait_calls := Suc (wait_calls s1)\<rparr>
               in if status \<and> \<not> cal_complete s2 then calibrate_loop env s2
                  else Some (status, s2))
         else Some (fst answer, s1))"

text \<open>
  The outer \<^verbatim>\<open>for (uint16_t i = 0; !status && (i <= calibration_retries); i++)\<close>.
\<close>

partial_function (option) retry_loop ::
  "sensor_env \<Rightarrow> 16 word \<Rightarrow> 16 word \<Rightarrow> bool \<Rightarrow> cal_state
     \<Rightarrow> (bool \<times> cal_state) option" where
  "retry_loop env calibration_retries i status s =
     (if \<not> status \<and> i \<le> calibration_retries
      then (case calibrate_loop env
                   (s\<lparr>events := events s @ [SensorDisable, SensorEnable]\<rparr>) of
              None \<Rightarrow> None
            | Some (status', s') \<Rightarrow> retry_loop env calibration_retries (i + 1) status' s')
      else Some (status, s))"

definition do_sensor_calibration_and_prepare ::
  "sensor_env \<Rightarrow> (bool \<times> cal_state) option" where
  "do_sensor_calibration_and_prepare env =
     (case retry_loop env 1 0 False initial_cal_state of
        None \<Rightarrow> None
      | Some (status, s) \<Rightarrow>
          if status
          then Some (prepare_answer env,
                     s\<lparr>events := events s @ [SensorDisable, SensorEnable, SensorPrepare]\<rparr>)
          else Some (status, s))"

subsection \<open>Concrete inputs\<close>

text \<open>
  A two-point range configuration: the points lie at 0.1 m and 0.1025 m, the first on
  the first threshold line (500, up to 0.101 m), the second on the second line (100).
\<close>

definition demo_config :: PrintDataConfig where
  "demo_config =
     \<lparr>rf_factor = 1, num_points = 2, sweeps_per_frame = 1, step = 1, start_point = 40,
      x_intercepts = (\<lambda>i. if i = 0 then 0 else if i = 1 then 0.101
                            else if i = 2 then 0.2 else 0.3),
      line1_slope = 0, y_inter_line1 = 500, line2_slope = 0, y_inter_line2 = 100,
      line3_slope = 0, y_inter_line3 = 50, algo = 1, avg_type = 1\<rparr>"

definition blank_data :: ProcessedData where
  "blank_data =
     \<lparr>pd_divisor = 0, pd_first_threshold_x = 0, pd_first_threshold_y = 0,
      pd_max_amplitude = 0, pd_temp = 0, pd_threshold_crossed = 0,
      pd_selected_distance = 0\<rparr>"

definition example_tables :: correction_tables where
  "example_tables = \<lparr>error_table = None, position_table = Some example_lookup_table\<rparr>"

definition sample :: "16 word \<Rightarrow> 16 word \<Rightarrow> acc_int16_complex_t" where
  "sample r i = \<lparr>real_part = r, imag_part = i\<rparr>"

lemmas estimator_eval =
  run_simple_threshold_algo_def scan.simps amplitude_of_def distance_at_def threshold_at_def
  compute_divisor_def initial_locals_def demo_config_def blank_data_def sample_def
  float_to_uint32_def Let_def

text \<open>A sensor whose calibration fails on every call.\<close>

definition dead_sensor :: sensor_env where
  "dead_sensor =
     \<lparr>calibrate_answer = (\<lambda>n. (False, False)), wait_answer = (\<lambda>n. True),
      prepare_answer = True\<rparr>"

text \<open>The two-entry table of the spec's scenarios.\<close>

definition spec_table :: lookup_table where
  "spec_table = [(10.50, 10.45), (20.75, 20.78)]"

text \<open>
  A table whose first distance is not positive, alone and next to an error correction
  that adds 1; and the example table next to an error correction that changes nothing.
\<close>

definition skewed_table :: lookup_table where
  "skewed_table = [(10, - 5), (20, 30)]"

definition skewed_both :: correction_tables where
  "skewed_both = \<lparr>error_table = Some (\<lambda>x. x + 1), position_table = Some skewed_table\<rparr>"

definition skewed_only :: correction_tables where
  "skewed_only = \<lparr>error_table = None, position_table = Some skewed_table\<rparr>"

definition example_both :: correction_tables where
  "example_both = \<lparr>error_table = Some (\<lambda>x. x), position_table = Some example_lookup_table\<rparr>"

lemmas correction_eval =
  apply_distance_correction_def lookup_tables_available_def skewed_table_def skewed_both_def
  skewed_only_def example_both_def example_tables_def example_lookup_table_def

text \<open>
  Locals of the measurement loop after two frames with detections: the buffer has the
  capacity 3 and holds two distances.
\<close>

definition demo_locals :: service_locals where
  "demo_locals =
     \<lparr>svc_distance = 1000, svc_proc_data = blank_data,
      lastHeldValues = \<lparr>capacity = 3, held = [1000, 1002]\<rparr>\<rparr>"

subsection \<open>Notions used to state the lookup rule\<close>

text \<open>The table is sorted by position, strictly increasing.\<close>

definition strictly_increasing :: "lookup_table \<Rightarrow> bool" where
  "strictly_increasing t \<longleftrightarrow> sorted_wrt (<) (map fst t)"

text \<open>
  The value \<^verbatim>\<open>y1 + (y2 - y1) * (position - x1) / (x2 - x1)\<close> for the entries \<open>i\<close>
  and \<open>i + 1\<close>.
\<close>

definition interpolated :: "lookup_table \<Rightarrow> real \<Rightarrow> nat \<Rightarrow> real" where
  "interpolated t p i =
     distances t i + (distances t (Suc i) - distances t i) * (p - positions t i)
                       / (positions t (Suc i) - positions t i)"

lemmas lookup_eval =
  getNearestDistance_def exact_match_from.simps interpolate_from.simps
  LOOKUP_TABLE_SIZE_def positions_def distances_def

section \<open>Properties\<close>

subsection \<open>The normalisation divisor\<close>

text \<open>For every temperature the divisor is the sum reduced modulo \<open>2 ^ 16\<close>.\<close>

lemma round_unsigned: "round (unsigned w :: real) = uint w"
proof -
  have "(unsigned w :: real) = real_of_int (uint w)" by simp
  then show ?thesis by (simp only: round_of_int)
qed

lemma compute_divisor_unclamped:
  "compute_divisor temp = word_of_int (1600 - 15 * uint temp)"
  by (simp add: compute_divisor_def Let_def round_unsigned)

text \<open>
  C1. The divisor is meant to be \<open>round (-15 * t + 1600)\<close> clamped to at least 1, so
  that it is never 0. The stored value is unsigned, so the test \<^verbatim>\<open>divisor < 0\<close> never
  holds and nothing is clamped: at the temperature 21952 the divisor is 0 (the sum is
  \<open>-5 * 2 ^ 16\<close>), and at 107, where the sum is \<open>-5\<close>, it is 65531 instead of 1.
\<close>

theorem divisor_not_clamped: "compute_divisor 21952 = 0 \<and> compute_divisor 107 = 65531"
  by (simp add: compute_divisor_def)

subsection \<open>Frames the estimator rejects\<close>

text \<open>
  C5. A frame whose sample count differs from \<open>num_points * sweeps_per_frame\<close> makes
  \<^verbatim>\<open>run_simple_threshold_algo\<close> return 0 with the \<^verbatim>\<open>ProcessedData\<close> fields as they
  were, whatever the samples, the temperature and the tables are: the samples are not
  scanned.
\<close>

theorem length_mismatch_returns_zero:
  "uint data_length \<noteq> num_points cfg * sweeps_per_frame cfg \<Longrightarrow>
     run_simple_threshold_algo tabs data data_length cfg temp pd = Inr (0, pd)"
  by (simp add: run_simple_threshold_algo_def)

theorem length_mismatch_returns_zero_witness:
  "uint (3 :: 16 word) \<noteq> num_points demo_config * sweeps_per_frame demo_config
   \<and> run_simple_threshold_algo example_tables
        [sample 300 400, sample 300 400, sample 600 400] 3 demo_config 20 blank_data
      = Inr (0, blank_data)"
  using length_mismatch_returns_zero
          [of 3 demo_config example_tables
              "[sample 300 400, sample 300 400, sample 600 400]" 20 blank_data]
  by (simp add: demo_config_def)

text \<open>
  C4. In a frame of the configured length whose first sample already lies above its
  threshold, the crossing index stays 0, and \<^verbatim>\<open>run_simple_threshold_algo\<close> returns 0
  with the \<^verbatim>\<open>ProcessedData\<close> fields as they were: neither the interpolation nor the
  correction is evaluated.
\<close>

theorem crossing_at_index_zero_invalid:
  assumes "uint data_length = num_points cfg * sweeps_per_frame cfg"
    and "0 < num_points cfg"
    and "data \<noteq> []"
    and "amplitude_of (data ! 0) (compute_divisor temp) = Inr amplitude"
    and "distance_at cfg 0 = Inr distance"
    and "real (unat amplitude) - threshold_at cfg distance > 0"
  shows "run_simple_threshold_algo tabs data data_length cfg temp pd = Inr (0, pd)"
  using assms
  by (simp add: run_simple_threshold_algo_def scan.simps [of _ _ _ 0] initial_locals_def
        Let_def)

theorem crossing_at_index_zero_invalid_witness:
  "uint (2 :: 16 word) = num_points demo_config * sweeps_per_frame demo_config
   \<and> 0 < num_points demo_config
   \<and> [sample 900 400, sample 300 400] \<noteq> []
   \<and> amplitude_of ([sample 900 400, sample 300 400] ! 0) (compute_divisor 20) = Inr 746
   \<and> distance_at demo_config 0 = Inr 0.1
   \<and> real (unat (746 :: 32 word)) - threshold_at demo_config 0.1 > 0
   \<and> run_simple_threshold_algo example_tables [sample 900 400, sample 300 400] 2
        demo_config 20 blank_data = Inr (0, blank_data)"
proof -
  have a: "uint (2 :: 16 word) = num_points demo_config * sweeps_per_frame demo_config"
    and b: "0 < num_points demo_config"
    and c: "[sample 900 400, sample 300 400] \<noteq> []"
    and d: "amplitude_of ([sample 900 400, sample 300 400] ! 0) (compute_divisor 20)
              = Inr 746"
    and e: "distance_at demo_config 0 = Inr 0.1"
    and f: "real (unat (746 :: 32 word)) - threshold_at demo_config 0.1 > 0"
    by (simp_all add: estimator_eval)
  from crossing_at_index_zero_invalid [OF a b c d e f, of example_tables blank_data]
    a b c d e f
  show ?thesis by simp
qed

subsection \<open>The interpolation\<close>

text \<open>
  C3. The division by \<open>y_cross - y_below\<close> is meant to be guarded. It is not: in the
  frame below both samples have the amplitude 192, the first under its threshold 500 and
  the second over its threshold 100, so the crossing is at index 1 with
  \<open>y_cross = y_below\<close>, and the estimator divides by zero instead of returning 0.
\<close>

theorem equal_amplitudes_divide_by_zero:
  "run_simple_threshold_algo example_tables [sample 300 400, sample 300 400] 2
     demo_config 20 blank_data = Inl SlopeDenominatorZero"
  by (simp add: estimator_eval)

subsection \<open>The smoothing buffer\<close>







subsection \<open>Calibration retries\<close>

lemma calibrate_loop_fails:
  assumes "\<not> fst (calibrate_answer env (calibrate_calls s))"
  shows "calibrate_loop env s =
           Some (False, s\<lparr>events := events s @ [SensorCalibrate],
                          calibrate_calls := Suc (calibrate_calls s),
                          cal_complete := snd (calibrate_answer env (calibrate_calls s))\<rparr>)"
  using assms by (subst calibrate_loop.simps) (simp add: Let_def)

text \<open>
  C6. With a calibration that fails on every call, \<^verbatim>\<open>do_sensor_calibration_and_prepare\<close>
  (whose retry count is 1) returns, and returns failure, after exactly two attempts, each
  a disable, an enable and one call of the calibration; it waits for no interrupt and
  never calls the prepare primitive.
\<close>

theorem failing_calibration_two_attempts:
  assumes "\<forall>n. \<not> fst (calibrate_answer env n)"
  shows "do_sensor_calibration_and_prepare env =
           Some (False,
                 \<lparr>events = [SensorDisable, SensorEnable, SensorCalibrate,
                            SensorDisable, SensorEnable, SensorCalibrate],
                  calibrate_calls = 2, wait_calls = 0,
                  cal_complete = snd (calibrate_answer env 1)\<rparr>)"
proof -
  have stop: "retry_loop env 1 2 False s = Some (False, s)" for s
    by (subst retry_loop.simps) (simp add: word_le_nat_alt)
  have second: "retry_loop env 1 1 False s =
      Some (False, s\<lparr>events := events s @ [SensorDisable, SensorEnable, SensorCalibrate],
                     calibrate_calls := Suc (calibrate_calls s),
                     cal_complete := snd (calibrate_answer env (calibrate_calls s))\<rparr>)" for s
    using assms by (subst retry_loop.simps) (simp add: calibrate_loop_fails stop)
  have first: "retry_loop env 1 0 False initial_cal_state =
      Some (False, \<lparr>events = [SensorDisable, SensorEnable, SensorCalibrate,
                            SensorDisable, SensorEnable, SensorCalibrate],
                  calibrate_calls = 2, wait_calls = 0,
                  cal_complete = snd (calibrate_answer env 1)\<rparr>)"
    using assms
    by (subst retry_loop.simps) (simp add: calibrate_loop_fails second initial_cal_state_def)
  then show ?thesis by (simp add: do_sensor_calibration_and_prepare_def)
qed

theorem failing_calibration_two_attempts_witness:
  "(\<forall>n. \<not> fst (calibrate_answer dead_sensor n))
   \<and> do_sensor_calibration_and_prepare dead_sensor =
           Some (False,
                 \<lparr>events = [SensorDisable, SensorEnable, SensorCalibrate,
                            SensorDisable, SensorEnable, SensorCalibrate],
                  calibrate_calls = 2, wait_calls = 0, cal_complete = False\<rparr>)"
proof -
  have h: "\<forall>n. \<not> fst (calibrate_answer dead_sensor n)" by (simp add: dead_sensor_def)
  from failing_calibration_two_attempts [OF h] h show ?thesis by (simp add: dead_sensor_def)
qed

subsection \<open>The lookup rule\<close>

lemma positions_mono:
  assumes "strictly_increasing t" and "i < j" and "j < length t"
  shows "positions t i < positions t j"
  using assms sorted_wrt_nth_less [of "(<)" "map fst t" i j]
  by (simp add: strictly_increasing_def positions_def)

lemma positions_mono_le:
  assumes "strictly_increasing t" and "i \<le> j" and "j < length t"
  shows "positions t i \<le> positions t j"
  using positions_mono [OF assms(1), of i j] assms(2,3)
  by (cases "i = j") auto

lemma exact_match_from_Some:
  "exact_match_from t p i = Some d \<Longrightarrow>
     \<exists>j. i \<le> j \<and> j < length t \<and> positions t j = p \<and> d = distances t j"
proof (induction t p i rule: exact_match_from.induct)
  case (1 t p i)
  show ?case
  proof (cases "i < length t \<and> positions t i \<noteq> p")
    case True
    with "1.prems" have "exact_match_from t p (Suc i) = Some d"
      by (subst (asm) exact_match_from.simps) (simp add: LOOKUP_TABLE_SIZE_def)
    with "1.IH" True obtain j where "Suc i \<le> j" "j < length t" "positions t j = p" "d = distances t j"
      by (auto simp: LOOKUP_TABLE_SIZE_def)
    then show ?thesis by (intro exI [of _ j]) simp
  next
    case False
    with "1.prems" have "i < length t \<and> positions t i = p \<and> d = distances t i"
      by (subst (asm) exact_match_from.simps) (auto simp: LOOKUP_TABLE_SIZE_def split: if_splits)
    then show ?thesis by (intro exI [of _ i]) simp
  qed
qed

lemma exact_match_from_None:
  "exact_match_from t p i = None \<Longrightarrow> i \<le> j \<Longrightarrow> j < length t \<Longrightarrow> positions t j \<noteq> p"
proof (induction t p i rule: exact_match_from.induct)
  case (1 t p i)
  from "1.prems" have here: "positions t i \<noteq> p" and rest: "exact_match_from t p (Suc i) = None"
    by (subst (asm) exact_match_from.simps, simp add: LOOKUP_TABLE_SIZE_def split: if_splits)+
  show ?case
  proof (cases "j = i")
    case True
    with here show ?thesis by simp
  next
    case False
    with "1.prems" have "Suc i \<le> j" by simp
    with "1.IH" here rest "1.prems" show ?thesis by (simp add: LOOKUP_TABLE_SIZE_def)
  qed
qed

lemma exact_match_from_hit:
  assumes "strictly_increasing t" and "j < length t" and "i \<le> j"
  shows "exact_match_from t (positions t j) i = Some (distances t j)"
proof (cases "exact_match_from t (positions t j) i")
  case None
  from exact_match_from_None [OF None assms(3,2)] show ?thesis by simp
next
  case (Some d)
  from exact_match_from_Some [OF Some] obtain k
    where k: "k < length t" "positions t k = positions t j" "d = distances t k" by blast
  have "k = j"
  proof (rule ccontr)
    assume "k \<noteq> j"
    then consider "k < j" | "j < k" by linarith
    then show False
      using positions_mono [OF assms(1), of k j] positions_mono [OF assms(1), of j k] k assms(2)
      by cases auto
  qed
  with Some k show ?thesis by simp
qed

lemma interpolate_from_Some:
  "interpolate_from t p i = Some v \<Longrightarrow>
     \<exists>j. i \<le> j \<and> Suc j < length t \<and> positions t j < p \<and> p < positions t (Suc j)
         \<and> v = interpolated t p j"
proof (induction t p i rule: interpolate_from.induct)
  case (1 t p i)
  show ?case
  proof (cases "Suc i < length t \<and> \<not> (p > positions t i \<and> p < positions t (Suc i))")
    case True
    with "1.prems" have "interpolate_from t p (Suc i) = Some v"
      by (subst (asm) interpolate_from.simps) (simp add: LOOKUP_TABLE_SIZE_def)
    with "1.IH" True obtain j where "Suc i \<le> j" "Suc j < length t" "positions t j < p"
      "p < positions t (Suc j)" "v = interpolated t p j"
      by (auto simp: LOOKUP_TABLE_SIZE_def)
    then show ?thesis by (intro exI [of _ j]) simp
  next
    case False
    with "1.prems" have "Suc i < length t \<and> positions t i < p \<and> p < positions t (Suc i)
        \<and> v = interpolated t p i"
      by (subst (asm) interpolate_from.simps)
         (auto simp: LOOKUP_TABLE_SIZE_def interpolated_def Let_def split: if_splits)
    then show ?thesis by (intro exI [of _ i]) simp
  qed
qed

lemma interpolate_from_None:
  "interpolate_from t p i = None \<Longrightarrow> positions t i < p \<Longrightarrow>
   (\<And>k. k < length t \<Longrightarrow> positions t k \<noteq> p) \<Longrightarrow>
   i \<le> j \<Longrightarrow> j < length t \<Longrightarrow> positions t j < p"
proof (induction t p i rule: interpolate_from.induct)
  case (1 t p i)
  show ?case
  proof (cases "j = i")
    case True
    with "1.prems" show ?thesis by simp
  next
    case False
    with "1.prems" have lt: "Suc i \<le> j" "Suc i < length t" by simp_all
    with "1.prems"(1) have nb: "\<not> (p > positions t i \<and> p < positions t (Suc i))"
      and rest: "interpolate_from t p (Suc i) = None"
      by (subst (asm) interpolate_from.simps, simp add: LOOKUP_TABLE_SIZE_def Let_def split: if_splits)+
    from nb "1.prems"(2) "1.prems"(3) [OF lt(2)] have "positions t (Suc i) < p" by simp
    with "1.IH" lt nb rest "1.prems" show ?thesis by (simp add: LOOKUP_TABLE_SIZE_def)
  qed
qed

lemma interpolate_from_hit:
  assumes "strictly_increasing t" and "Suc j < length t" and "i \<le> j"
    and "positions t j < p" and "p < positions t (Suc j)"
  shows "interpolate_from t p i = Some (interpolated t p j)"
proof (cases "interpolate_from t p i")
  case None
  have "positions t k \<noteq> p" if "k < length t" for k
  proof (cases "k \<le> j")
    case True
    from positions_mono_le [OF assms(1) True] assms(2,4) show ?thesis by simp
  next
    case False
    then have "Suc j \<le> k" by simp
    from positions_mono_le [OF assms(1) this that] assms(5) show ?thesis by simp
  qed
  moreover have "positions t i < p"
    using positions_mono_le [OF assms(1,3)] assms(2,4) by simp
  ultimately have "positions t (Suc j) < p"
    using interpolate_from_None [OF None, of "Suc j"] assms(2,3) by simp
  with assms(5) show ?thesis by simp
next
  case (Some v)
  from interpolate_from_Some [OF Some] obtain k
    where k: "Suc k < length t" "positions t k < p" "p < positions t (Suc k)"
      "v = interpolated t p k" by blast
  have "k = j"
  proof (rule ccontr)
    assume "k \<noteq> j"
    then consider "Suc k \<le> j" | "Suc j \<le> k" by linarith
    then show False
    proof cases
      case 1
      from positions_mono_le [OF assms(1) 1] assms(2,4) k(3) show False by simp
    next
      case 2
      from positions_mono_le [OF assms(1) 2] k(1,2) assms(5) show False by simp
    qed
  qed
  with Some k show ?thesis by simp
qed


lemma no_exact_match_between:
  assumes "strictly_increasing t" and "Suc i < length t"
    and "positions t i < p" and "p < positions t (Suc i)"
  shows "exact_match_from t p 0 = None"
proof (cases "exact_match_from t p 0")
  case None
  then show ?thesis .
next
  case (Some d)
  from exact_match_from_Some [OF Some] obtain k
    where k: "k < length t" "positions t k = p" by blast
  consider "k \<le> i" | "Suc i \<le> k" by linarith
  then have False
  proof cases
    case 1
    from positions_mono_le [OF assms(1) 1] assms(2,3) k show False by simp
  next
    case 2
    from positions_mono_le [OF assms(1) 2 k(1)] assms(4) k show False by simp
  qed
  then show ?thesis ..
qed

lemma getNearestDistance_exact:
  assumes "strictly_increasing t" and "i < length t"
  shows "getNearestDistance t (positions t i) = distances t i"
proof -
  from assms(2) have "t \<noteq> []" by auto
  with exact_match_from_hit [OF assms, of 0] show ?thesis
    by (simp add: getNearestDistance_def LOOKUP_TABLE_SIZE_def)
qed

lemma getNearestDistance_below:
  assumes "t \<noteq> []" and "strictly_increasing t" and "p \<le> positions t 0"
  shows "getNearestDistance t p = distances t 0"
proof (cases "exact_match_from t p 0")
  case None
  with assms show ?thesis by (simp add: getNearestDistance_def LOOKUP_TABLE_SIZE_def)
next
  case (Some d)
  from exact_match_from_Some [OF Some] obtain k
    where k: "k < length t" "positions t k = p" "d = distances t k" by blast
  have "k = 0"
  proof (rule ccontr)
    assume "k \<noteq> 0"
    then have "0 < k" by simp
    from positions_mono [OF assms(2) this k(1)] k(2) assms(3) show False by simp
  qed
  with Some k assms(1) show ?thesis by (simp add: getNearestDistance_def LOOKUP_TABLE_SIZE_def)
qed

lemma getNearestDistance_above:
  assumes "t \<noteq> []" and "strictly_increasing t" and "p \<ge> positions t (length t - 1)"
  shows "getNearestDistance t p = distances t (length t - 1)"
proof (cases "exact_match_from t p 0")
  case None
  from assms(1) have n: "0 < length t" by simp
  from exact_match_from_None [OF None, of 0] n have "positions t 0 \<noteq> p" by simp
  moreover have "positions t 0 \<le> positions t (length t - 1)"
    using positions_mono_le [OF assms(2), of 0 "length t - 1"] n by simp
  ultimately have "\<not> p \<le> positions t 0" using assms(3) by simp
  with None assms show ?thesis by (simp add: getNearestDistance_def LOOKUP_TABLE_SIZE_def)
next
  case (Some d)
  from exact_match_from_Some [OF Some] obtain k
    where k: "k < length t" "positions t k = p" "d = distances t k" by blast
  have "k = length t - 1"
  proof (rule ccontr)
    assume "k \<noteq> length t - 1"
    with k(1) have "k < length t - 1" "length t - 1 < length t" by simp_all
    from positions_mono [OF assms(2) this] k(2) assms(3) show False by simp
  qed
  with Some k assms(1) show ?thesis by (simp add: getNearestDistance_def LOOKUP_TABLE_SIZE_def)
qed

lemma getNearestDistance_between:
  assumes "strictly_increasing t" and "Suc i < length t"
    and "positions t i < p" and "p < positions t (Suc i)"
  shows "getNearestDistance t p = interpolated t p i"
proof -
  have "positions t 0 \<le> positions t i"
    using positions_mono_le [OF assms(1), of 0 i] assms(2) by simp
  with assms(3) have lo: "\<not> p \<le> positions t 0" by simp
  have "positions t (Suc i) \<le> positions t (length t - 1)"
    using positions_mono_le [OF assms(1), of "Suc i" "length t - 1"] assms(2) by simp
  with assms(4) have hi: "\<not> p \<ge> positions t (length t - 1)" by simp
  from assms(2) have "t \<noteq> []" by auto
  with no_exact_match_between [OF assms] interpolate_from_hit [OF assms(1,2) _ assms(3,4), of 0]
    lo hi
  show ?thesis by (simp add: getNearestDistance_def LOOKUP_TABLE_SIZE_def)
qed

lemma getNearestDistance_otherwise:
  assumes "t \<noteq> []"
    and "\<And>k. k < length t \<Longrightarrow> positions t k \<noteq> p"
    and "positions t 0 < p" and "p < positions t (length t - 1)"
  shows "\<exists>i. Suc i < length t \<and> positions t i < p \<and> p < positions t (Suc i)
           \<and> getNearestDistance t p = interpolated t p i"
proof -
  have nomatch: "exact_match_from t p 0 = None"
  proof (cases "exact_match_from t p 0")
    case (Some d)
    from exact_match_from_Some [OF Some] assms(2) show ?thesis by blast
  qed simp
  show ?thesis
  proof (cases "interpolate_from t p 0")
    case None
    from interpolate_from_None [OF None assms(3) assms(2), of "length t - 1"] assms(1,4)
    show ?thesis by simp
  next
    case (Some v)
    from interpolate_from_Some [OF Some] obtain j
      where j: "Suc j < length t" "positions t j < p" "p < positions t (Suc j)"
        "v = interpolated t p j" by blast
    with Some nomatch assms(1,3,4) have "getNearestDistance t p = interpolated t p j"
      by (simp add: getNearestDistance_def LOOKUP_TABLE_SIZE_def)
    with j show ?thesis by blast
  qed
qed

text \<open>
  C7. On a non-empty table with strictly increasing positions, \<^verbatim>\<open>getNearestDistance\<close>
  returns the paired distance at a position of the table, the first distance at or
  below the first position, the last distance at or above the last position, and
  otherwise (when there are two neighbouring entries that bracket the position, as there
  are in every other case) the linear interpolation between them. For the table
  \<open>(10.50, 10.45), (20.75, 20.78)\<close> the position 15.625 gives 15.615 and the position
  5.0 gives 10.45.
\<close>

theorem getNearestDistance_rule:
  assumes "t \<noteq> []" and "strictly_increasing t"
  shows "(\<forall>i. i < length t \<and> position = positions t i \<longrightarrow>
            getNearestDistance t position = distances t i)
       \<and> (position \<le> positions t 0 \<longrightarrow> getNearestDistance t position = distances t 0)
       \<and> (position \<ge> positions t (length t - 1) \<longrightarrow>
            getNearestDistance t position = distances t (length t - 1))
       \<and> (\<forall>i. Suc i < length t \<and> positions t i < position \<and> position < positions t (Suc i) \<longrightarrow>
            getNearestDistance t position =
              distances t i + (distances t (Suc i) - distances t i) * (position - positions t i)
                                / (positions t (Suc i) - positions t i))
       \<and> ((\<forall>k < length t. positions t k \<noteq> position) \<and> positions t 0 < position
            \<and> position < positions t (length t - 1) \<longrightarrow>
            (\<exists>i. Suc i < length t \<and> positions t i < position \<and> position < positions t (Suc i)))
       \<and> getNearestDistance [(10.50, 10.45), (20.75, 20.78)] 15.625 = 15.615
       \<and> getNearestDistance [(10.50, 10.45), (20.75, 20.78)] 5.0 = 10.45"
proof (intro conjI allI impI)
  fix i assume "i < length t \<and> position = positions t i"
  with getNearestDistance_exact [OF assms(2), of i]
  show "getNearestDistance t position = distances t i" by simp
next
  assume "position \<le> positions t 0"
  with getNearestDistance_below [OF assms] show "getNearestDistance t position = distances t 0" .
next
  assume "position \<ge> positions t (length t - 1)"
  with getNearestDistance_above [OF assms]
  show "getNearestDistance t position = distances t (length t - 1)" .
next
  fix i
  assume "Suc i < length t \<and> positions t i < position \<and> position < positions t (Suc i)"
  with getNearestDistance_between [OF assms(2), of i position]
  show "getNearestDistance t position =
          distances t i + (distances t (Suc i) - distances t i) * (position - positions t i)
                            / (positions t (Suc i) - positions t i)"
    by (simp add: interpolated_def)
next
  assume "(\<forall>k < length t. positions t k \<noteq> position) \<and> positions t 0 < position
            \<and> position < positions t (length t - 1)"
  with getNearestDistance_otherwise [OF assms(1), of position]
  show "\<exists>i. Suc i < length t \<and> positions t i < position \<and> position < positions t (Suc i)"
    by blast
next
  show "getNearestDistance [(10.50, 10.45), (20.75, 20.78)] 15.625 = 15.615"
    by (simp add: lookup_eval)
next
  show "getNearestDistance [(10.50, 10.45), (20.75, 20.78)] 5.0 = 10.45"
    by (simp add: lookup_eval)
qed

theorem getNearestDistance_rule_witness:
  "spec_table \<noteq> [] \<and> strictly_increasing spec_table
   \<and> (1 :: nat) < length spec_table \<and> 20.75 = positions spec_table 1
   \<and> getNearestDistance spec_table 20.75 = 20.78
   \<and> 5.0 \<le> positions spec_table 0
   \<and> getNearestDistance spec_table 5.0 = 10.45
   \<and> 25 \<ge> positions spec_table (length spec_table - 1)
   \<and> getNearestDistance spec_table 25 = 20.78
   \<and> Suc 0 < length spec_table \<and> positions spec_table 0 < 15.625
   \<and> 15.625 < positions spec_table (Suc 0)
   \<and> getNearestDistance spec_table 15.625 = 15.615"
proof -
  have a: "spec_table \<noteq> []" and b: "strictly_increasing spec_table"
    by (simp_all add: spec_table_def strictly_increasing_def)
  have c: "(1 :: nat) < length spec_table \<and> 20.75 = positions spec_table 1"
    and d: "5.0 \<le> positions spec_table 0"
    and e: "25 \<ge> positions spec_table (length spec_table - 1)"
    and f: "Suc 0 < length spec_table \<and> positions spec_table 0 < 15.625
             \<and> 15.625 < positions spec_table (Suc 0)"
    by (simp_all add: spec_table_def positions_def)
  from getNearestDistance_rule [OF a b, of "20.75"] c
  have c': "getNearestDistance spec_table 20.75 = distances spec_table 1" by blast
  from getNearestDistance_rule [OF a b, of "5.0"] d
  have d': "getNearestDistance spec_table 5.0 = distances spec_table 0" by blast
  from getNearestDistance_rule [OF a b, of 25] e
  have e': "getNearestDistance spec_table 25 = distances spec_table (length spec_table - 1)"
    by blast
  from getNearestDistance_rule [OF a b, of "15.625"] f
  have f': "getNearestDistance spec_table 15.625 =
              distances spec_table 0
              + (distances spec_table (Suc 0) - distances spec_table 0)
                * (15.625 - positions spec_table 0)
                / (positions spec_table (Suc 0) - positions spec_table 0)"
    by blast
  have vals: "distances spec_table 1 = 20.78" "distances spec_table 0 = 10.45"
    "distances spec_table (length spec_table - 1) = 20.78"
    "distances spec_table 0
              + (distances spec_table (Suc 0) - distances spec_table 0)
                * (15.625 - positions spec_table 0)
                / (positions spec_table (Suc 0) - positions spec_table 0) = 15.615"
    by (simp_all add: spec_table_def positions_def distances_def)
  note c'' = trans [OF c' vals(1)] and d'' = trans [OF d' vals(2)]
    and e'' = trans [OF e' vals(3)] and f'' = trans [OF f' vals(4)]
  from a b c d e f c'' d'' e'' f'' show ?thesis by blast
qed

subsection \<open>Distance correction\<close>

lemma interpolated_positive:
  fixes y1 y2 x1 x2 p :: real
  assumes "0 < y1" and "0 < y2" and "x1 < p" and "p < x2"
  shows "0 < y1 + (y2 - y1) * (p - x1) / (x2 - x1)"
proof -
  define l where "l = (p - x1) / (x2 - x1)"
  from assms(3,4) have l: "0 < l" "l < 1" by (simp_all add: l_def)
  have "y1 + (y2 - y1) * (p - x1) / (x2 - x1) = y1 + (y2 - y1) * l"
    by (simp add: l_def)
  also have "\<dots> = y1 * (1 - l) + y2 * l"
    by (simp add: algebra_simps)
  finally have "y1 + (y2 - y1) * (p - x1) / (x2 - x1) = y1 * (1 - l) + y2 * l" .
  moreover from l assms(1,2) have "0 < y1 * (1 - l)" "0 < y2 * l" by simp_all
  ultimately show ?thesis by simp
qed

lemma getNearestDistance_positive:
  assumes "t \<noteq> []" and "\<And>i. i < length t \<Longrightarrow> 0 < distances t i"
  shows "0 < getNearestDistance t p"
proof (cases "exact_match_from t p 0")
  case (Some d)
  from exact_match_from_Some [OF Some] assms(2) have "0 < d" by blast
  with Some assms(1) show ?thesis by (simp add: getNearestDistance_def LOOKUP_TABLE_SIZE_def)
next
  case None
  from assms(1) have n: "0 < length t" by simp
  show ?thesis
  proof (cases "p \<le> positions t 0 \<or> p \<ge> positions t (length t - 1)")
    case True
    with None assms(1) assms(2) [of 0] assms(2) [of "length t - 1"] n show ?thesis
      by (auto simp: getNearestDistance_def LOOKUP_TABLE_SIZE_def)
  next
    case False
    then have lo: "positions t 0 < p" and hi: "p < positions t (length t - 1)" by simp_all
    have nomatch: "positions t k \<noteq> p" if "k < length t" for k
      using exact_match_from_None [OF None, of k] that by simp
    from getNearestDistance_otherwise [OF assms(1) nomatch lo hi] obtain i
      where i: "Suc i < length t" "positions t i < p" "p < positions t (Suc i)"
        "getNearestDistance t p = interpolated t p i" by blast
    from i(1) have "0 < distances t i" "0 < distances t (Suc i)"
      using assms(2) [of i] assms(2) [of "Suc i"] by simp_all
    from interpolated_positive [OF this i(2,3)] i(4) show ?thesis
      by (simp add: interpolated_def)
  qed
qed

text \<open>
  C8, as stated: with both tables compiled in, the table's result is returned whenever
  it differs from the corrected value by more than 2. It is not when the lookup is not
  positive: with the table \<open>(10, -5), (20, 30)\<close> and an error correction that adds 1,
  the raw distance 5 is corrected to 6, the lookup is \<open>-5\<close>, the two differ by 11, and
  the answer is 6.
\<close>

theorem lookup_rule_without_proviso_counterexample:
  "lookup_tables_available skewed_both
   \<and> error_table skewed_both \<noteq> None \<and> position_table skewed_both = Some skewed_table
   \<and> the (error_table skewed_both) 5 = 6
   \<and> getNearestDistance skewed_table 6 = - 5
   \<and> \<bar>getNearestDistance skewed_table 6 - 6\<bar> > 2
   \<and> apply_distance_correction skewed_both 5 = 6
   \<and> apply_distance_correction skewed_both 5 \<noteq> getNearestDistance skewed_table 6"
  by (simp add: correction_eval lookup_eval)

text \<open>
  C8, amended. With both tables compiled in and the position table not empty,
  \<^verbatim>\<open>apply_distance_correction\<close> applies the error correction first and queries the
  position table with the corrected value; it returns the table's result when that
  result is positive and the two differ by more than 2 (mm), and the corrected value
  otherwise. Where all distances of the table are positive, as in
  \<^verbatim>\<open>example_lookup_table.h\<close>, every lookup is positive and the proviso is met.
\<close>

theorem lookup_preferred_when_positive:
  "(lookup_tables_available tabs \<and> error_table tabs = Some applyCorrectedDistance
      \<and> position_table tabs = Some t
    \<longrightarrow> apply_distance_correction tabs raw_distance_mm =
          (if 0 < getNearestDistance t (applyCorrectedDistance raw_distance_mm)
              \<and> \<bar>getNearestDistance t (applyCorrectedDistance raw_distance_mm)
                   - applyCorrectedDistance raw_distance_mm\<bar> > 2
           then getNearestDistance t (applyCorrectedDistance raw_distance_mm)
           else applyCorrectedDistance raw_distance_mm))
   \<and> (error_table tabs = Some applyCorrectedDistance \<and> position_table tabs = Some t
      \<and> t \<noteq> [] \<and> list_all (\<lambda>row. 0 < snd row) t
    \<longrightarrow> apply_distance_correction tabs raw_distance_mm =
          (if \<bar>getNearestDistance t (applyCorrectedDistance raw_distance_mm)
                   - applyCorrectedDistance raw_distance_mm\<bar> > 2
           then getNearestDistance t (applyCorrectedDistance raw_distance_mm)
           else applyCorrectedDistance raw_distance_mm))"
proof (intro conjI impI)
  assume "lookup_tables_available tabs \<and> error_table tabs = Some applyCorrectedDistance
      \<and> position_table tabs = Some t"
  then show "apply_distance_correction tabs raw_distance_mm =
          (if 0 < getNearestDistance t (applyCorrectedDistance raw_distance_mm)
              \<and> \<bar>getNearestDistance t (applyCorrectedDistance raw_distance_mm)
                   - applyCorrectedDistance raw_distance_mm\<bar> > 2
           then getNearestDistance t (applyCorrectedDistance raw_distance_mm)
           else applyCorrectedDistance raw_distance_mm)"
    by (simp add: apply_distance_correction_def Let_def abs_if)
next
  assume h: "error_table tabs = Some applyCorrectedDistance \<and> position_table tabs = Some t
      \<and> t \<noteq> [] \<and> list_all (\<lambda>row. 0 < snd row) t"
  then have "0 < distances t i" if "i < length t" for i
    using that by (simp add: list_all_length distances_def)
  with h have "0 < getNearestDistance t (applyCorrectedDistance raw_distance_mm)"
    by (intro getNearestDistance_positive) simp_all
  with h show "apply_distance_correction tabs raw_distance_mm =
          (if \<bar>getNearestDistance t (applyCorrectedDistance raw_distance_mm)
                   - applyCorrectedDistance raw_distance_mm\<bar> > 2
           then getNearestDistance t (applyCorrectedDistance raw_distance_mm)
           else applyCorrectedDistance raw_distance_mm)"
    by (simp add: apply_distance_correction_def lookup_tables_available_def
          LOOKUP_TABLE_SIZE_def Let_def abs_if)
qed

theorem lookup_preferred_when_positive_witness:
  "lookup_tables_available example_both \<and> error_table example_both = Some (\<lambda>x. x)
   \<and> position_table example_both = Some example_lookup_table
   \<and> example_lookup_table \<noteq> [] \<and> list_all (\<lambda>row. 0 < snd row) example_lookup_table
   \<and> 0 < getNearestDistance example_lookup_table 5
   \<and> \<bar>getNearestDistance example_lookup_table 5 - 5\<bar> > 2
   \<and> apply_distance_correction example_both 5 = getNearestDistance example_lookup_table 5
   \<and> getNearestDistance example_lookup_table 5 = 10.45
   \<and> \<not> \<bar>getNearestDistance example_lookup_table 11 - 11\<bar> > 2
   \<and> apply_distance_correction example_both 11 = 11"
proof -
  have a: "lookup_tables_available example_both \<and> error_table example_both = Some (\<lambda>x. x)
      \<and> position_table example_both = Some example_lookup_table"
    and b: "example_lookup_table \<noteq> [] \<and> list_all (\<lambda>row. 0 < snd row) example_lookup_table"
    by (simp_all add: correction_eval LOOKUP_TABLE_SIZE_def)
  have v: "getNearestDistance example_lookup_table 5 = 10.45"
    by (simp add: example_lookup_table_def lookup_eval)
  have c: "0 < getNearestDistance example_lookup_table ((\<lambda>x. x) 5)
      \<and> \<bar>getNearestDistance example_lookup_table ((\<lambda>x. x) 5) - (\<lambda>x. x) 5\<bar> > 2"
    by (simp add: v)
  have d: "\<not> \<bar>getNearestDistance example_lookup_table ((\<lambda>x. x) 11) - (\<lambda>x. x) 11\<bar> > 2"
    by (simp add: example_lookup_table_def lookup_eval)
  from lookup_preferred_when_positive
         [of example_both "\<lambda>x. x" example_lookup_table 5, THEN conjunct1] a c
  have e: "apply_distance_correction example_both 5
             = getNearestDistance example_lookup_table ((\<lambda>x. x) 5)"
    by (simp only: if_True simp_thms)
  from lookup_preferred_when_positive
         [of example_both "\<lambda>x. x" example_lookup_table 11, THEN conjunct2] a b d
  have f: "apply_distance_correction example_both 11 = (\<lambda>x. x) 11"
    by (simp only: if_False simp_thms)
  from a b c d e f v show ?thesis by simp
qed

text \<open>
  C10. For any tables: with both tables compiled in and the position table not empty, a
  lookup that is not positive leaves the result of the error correction as the answer,
  however far the two are apart, and an answer other than the corrected value is a
  positive lookup; with the position table alone, a lookup that is not positive leaves
  the raw distance as the answer.
\<close>

theorem lookup_adopted_only_if_positive:
  "(lookup_tables_available tabs \<and> error_table tabs = Some applyCorrectedDistance
      \<and> position_table tabs = Some t
      \<and> getNearestDistance t (applyCorrectedDistance raw_distance_mm) \<le> 0
    \<longrightarrow> apply_distance_correction tabs raw_distance_mm
          = applyCorrectedDistance raw_distance_mm)
   \<and> (lookup_tables_available tabs \<and> error_table tabs = Some applyCorrectedDistance
      \<and> position_table tabs = Some t
      \<and> apply_distance_correction tabs raw_distance_mm
          \<noteq> applyCorrectedDistance raw_distance_mm
    \<longrightarrow> 0 < getNearestDistance t (applyCorrectedDistance raw_distance_mm)
        \<and> apply_distance_correction tabs raw_distance_mm
          = getNearestDistance t (applyCorrectedDistance raw_distance_mm))
   \<and> (lookup_tables_available tabs \<and> error_table tabs = None
      \<and> position_table tabs = Some t
      \<and> getNearestDistance t raw_distance_mm \<le> 0
    \<longrightarrow> apply_distance_correction tabs raw_distance_mm = raw_distance_mm)"
  by (auto simp: apply_distance_correction_def Let_def split: if_splits)

theorem lookup_adopted_only_if_positive_witness:
  "lookup_tables_available skewed_both \<and> error_table skewed_both = Some (\<lambda>x. x + 1)
   \<and> position_table skewed_both = Some skewed_table
   \<and> getNearestDistance skewed_table (5 + 1) \<le> 0
   \<and> apply_distance_correction skewed_both 5 = 5 + 1
   \<and> lookup_tables_available example_both \<and> error_table example_both = Some (\<lambda>x. x)
   \<and> position_table example_both = Some example_lookup_table
   \<and> apply_distance_correction example_both 5 \<noteq> 5
   \<and> 0 < getNearestDistance example_lookup_table 5
   \<and> apply_distance_correction example_both 5 = getNearestDistance example_lookup_table 5
   \<and> lookup_tables_available skewed_only \<and> error_table skewed_only = None
   \<and> position_table skewed_only = Some skewed_table
   \<and> getNearestDistance skewed_table 5 \<le> 0
   \<and> apply_distance_correction skewed_only 5 = 5"
proof -
  have a: "lookup_tables_available skewed_both \<and> error_table skewed_both = Some (\<lambda>x. x + 1)
      \<and> position_table skewed_both = Some skewed_table
      \<and> getNearestDistance skewed_table ((\<lambda>x. x + 1) 5) \<le> 0"
    by (simp add: correction_eval lookup_eval)
  have b: "lookup_tables_available example_both \<and> error_table example_both = Some (\<lambda>x. x)
      \<and> position_table example_both = Some example_lookup_table
      \<and> apply_distance_correction example_both 5 \<noteq> (\<lambda>x. x) 5"
    by (simp add: correction_eval lookup_eval)
  have c: "lookup_tables_available skewed_only \<and> error_table skewed_only = None
      \<and> position_table skewed_only = Some skewed_table
      \<and> getNearestDistance skewed_table 5 \<le> 0"
    by (simp add: correction_eval lookup_eval)
  from a lookup_adopted_only_if_positive [of skewed_both "\<lambda>x. x + 1" skewed_table 5]
  have a': "apply_distance_correction skewed_both 5 = (\<lambda>x. x + 1) 5" by blast
  from b lookup_adopted_only_if_positive [of example_both "\<lambda>x. x" example_lookup_table 5]
  have b': "0 < getNearestDistance example_lookup_table ((\<lambda>x. x) 5)
      \<and> apply_distance_correction example_both 5
          = getNearestDistance example_lookup_table ((\<lambda>x. x) 5)" by blast
  from c lookup_adopted_only_if_positive [of skewed_only _ skewed_table 5]
  have c': "apply_distance_correction skewed_only 5 = 5" by blast
  from a b c a' b' c' show ?thesis by simp
qed

subsection \<open>Frames without a detection\<close>

text \<open>
  C2, as stated: a frame without a crossing leaves the smoothing buffer as it was. It
  does not. In the frame below no sample is above its threshold (amplitudes 192 and 15,
  thresholds 500 and 100), the estimator returns 0, and the cycle appends this 0 to the
  buffer that held 1000 and 1002.
\<close>

theorem invalid_frame_enqueued_counterexample:
  "run_simple_threshold_algo example_tables [sample 300 400, sample 100 100] 2 demo_config 20
     blank_data = Inr (0, blank_data)
   \<and> frame_cycle example_tables demo_config [sample 300 400, sample 100 100] 2 20 demo_locals
     = Inr \<lparr>svc_distance = 0, svc_proc_data = blank_data,
            lastHeldValues = \<lparr>capacity = 3, held = [1000, 1002, 0]\<rparr>\<rparr>
   \<and> held (lastHeldValues demo_locals) = [1000, 1002]"
  by (simp add: frame_cycle_def demo_locals_def push_def isFull_def enqueue_def dequeue_def
        estimator_eval)

text \<open>
  C2, amended. In a frame cycle that runs the estimator (\<^verbatim>\<open>algo == 1\<close>), a result 0
  of the estimator is handled as every distance is: it becomes the current distance and
  is pushed into the buffer as its newest entry, after the oldest entry is evicted if the
  buffer was full.
\<close>

theorem invalid_frame_enqueued:
  assumes "algo cfg = 1"
    and "run_simple_threshold_algo tabs frame frame_data_length cfg temperature
           (svc_proc_data loc) = Inr (0, pd)"
  shows "frame_cycle tabs cfg frame frame_data_length temperature loc =
           Inr \<lparr>svc_distance = 0, svc_proc_data = pd,
                lastHeldValues = push (lastHeldValues loc) 0\<rparr>
       \<and> held (push (lastHeldValues loc) 0) =
           (if isFull (lastHeldValues loc) then tl (held (lastHeldValues loc))
            else held (lastHeldValues loc)) @ [0]"
  using assms
  by (simp add: frame_cycle_def push_def enqueue_def dequeue_def)

theorem invalid_frame_enqueued_witness:
  "algo demo_config = 1
   \<and> run_simple_threshold_algo example_tables [sample 300 400, sample 100 100] 2 demo_config 20
       (svc_proc_data demo_locals) = Inr (0, blank_data)
   \<and> frame_cycle example_tables demo_config [sample 300 400, sample 100 100] 2 20 demo_locals
       = Inr \<lparr>svc_distance = 0, svc_proc_data = blank_data,
              lastHeldValues = push (lastHeldValues demo_locals) 0\<rparr>
   \<and> held (push (lastHeldValues demo_locals) 0) = [1000, 1002, 0]"
proof -
  have a: "algo demo_config = 1" by (simp add: demo_config_def)
  have b: "run_simple_threshold_algo example_tables [sample 300 400, sample 100 100] 2
             demo_config 20 (svc_proc_data demo_locals) = Inr (0, blank_data)"
    by (simp add: demo_locals_def estimator_eval)
  have c: "\<not> isFull (lastHeldValues demo_locals)"
    "held (lastHeldValues demo_locals) = [1000, 1002]"
    by (simp_all add: demo_locals_def isFull_def)
  from invalid_frame_enqueued [OF a b] a b c show ?thesis by simp
qed

end
